theory Spec2Isabelle
  imports Main
begin

section \<open>Strings\<close>

text \<open>
  A JavaScript string is modelled as a \<^typ>\<open>string\<close>: a list of code units below 256 (Basic
  Latin and Latin-1). The two string methods the scripts rely on are written out for that
  range. \<open>trim\<close> removes, from both ends, the white space and line terminators of the
  language: tab, line feed, vertical tab, form feed, carriage return, space and no-break
  space (U+00A0). \<open>toLowerCase\<close> maps \<open>A..Z\<close> and the Latin-1 capital letters (U+00C0 to
  U+00DE, without the multiplication sign U+00D7) to their small letters, 32 code units up.
\<close>

definition isWhiteSpace :: "char \<Rightarrow> bool" where
  "isWhiteSpace c =
     (c \<in> set [CHR 0x09, CHR 0x0A, CHR 0x0B, CHR 0x0C, CHR 0x0D, CHR '' '', CHR 0xA0])"

definition trim :: "string \<Rightarrow> string" where
  "trim s = rev (dropWhile isWhiteSpace (rev (dropWhile isWhiteSpace s)))"

definition upperCaseLetters :: string where
  "upperCaseLetters =
     ''ABCDEFGHIJKLMNOPQRSTUVWXYZ''
     @ [CHR 0xC0, CHR 0xC1, CHR 0xC2, CHR 0xC3, CHR 0xC4, CHR 0xC5, CHR 0xC6, CHR 0xC7,
        CHR 0xC8, CHR 0xC9, CHR 0xCA, CHR 0xCB, CHR 0xCC, CHR 0xCD, CHR 0xCE, CHR 0xCF,
        CHR 0xD0, CHR 0xD1, CHR 0xD2, CHR 0xD3, CHR 0xD4, CHR 0xD5, CHR 0xD6,
        CHR 0xD8, CHR 0xD9, CHR 0xDA, CHR 0xDB, CHR 0xDC, CHR 0xDD, CHR 0xDE]"

definition lowerCaseLetters :: string where
  "lowerCaseLetters =
     ''abcdefghijklmnopqrstuvwxyz''
     @ [CHR 0xE0, CHR 0xE1, CHR 0xE2, CHR 0xE3, CHR 0xE4, CHR 0xE5, CHR 0xE6, CHR 0xE7,
        CHR 0xE8, CHR 0xE9, CHR 0xEA, CHR 0xEB, CHR 0xEC, CHR 0xED, CHR 0xEE, CHR 0xEF,
        CHR 0xF0, CHR 0xF1, CHR 0xF2, CHR 0xF3, CHR 0xF4, CHR 0xF5, CHR 0xF6,
        CHR 0xF8, CHR 0xF9, CHR 0xFA, CHR 0xFB, CHR 0xFC, CHR 0xFD, CHR 0xFE]"

definition lowerChar :: "char \<Rightarrow> char" where
  "lowerChar c =
     (case map_of (zip upperCaseLetters lowerCaseLetters) c of
        Some l \<Rightarrow> l
      | None \<Rightarrow> c)"

definition toLowerCase :: "string \<Rightarrow> string" where
  "toLowerCase s = map lowerChar s"

text \<open>\<open>Array.prototype.join\<close> on an array of strings.\<close>

fun join :: "string \<Rightarrow> string list \<Rightarrow> string" where
  "join sep [] = []"
| "join sep [s] = s"
| "join sep (s # t # ts) = s @ sep @ join sep (t # ts)"

section \<open>The document tree\<close>

text \<open>
  What the two scripts read from the live document: an element has its \<open>tagName\<close> (as the
  DOM returns it, in upper case for an HTML element), its attribute list (\<open>attrs\<close>, the
  names and values of \<open>element.attributes\<close> in document order), the three properties of
  its computed style that \<open>isVisible\<close> inspects, the rectangle \<open>getBoundingClientRect()\<close>
  returns, and its \<open>childNodes\<close>. A child node is an element, a text node or a comment
  (any other childless node kind behaves like a comment in both scripts).

  Each property of a node reads as the node's own. In a browser, a control of a form whose
  name or id is that of a property the scripts read (\<open>tagName\<close>, \<open>childNodes\<close>) shadows the
  property on the form, and the scripts then throw where they use it; such documents are
  outside this model, as is the depth of the call stack that the recursion needs.

  The coordinates of a rectangle (\<open>x\<close> and \<open>y\<close> are called \<open>x_coord\<close> and \<open>y_coord\<close>) are
  of an arbitrary type \<open>'n\<close>: the scripts only copy them and compare them with zero.
\<close>

datatype 'n rect = Rect (x_coord: 'n) (y_coord: 'n) (width: 'n) (height: 'n)

record style =
  display :: string
  visibility :: string
  opacity :: string

datatype 'e node = ElementNode 'e | TextNode string | CommentNode string

datatype 'n element =
  Element (tagName: string) (attrs: "(string \<times> string) list") (computedStyle: style)
    (boundingClientRect: "'n rect") (childNodes: "'n element node list")

text \<open>\<open>element.children\<close>: the child nodes that are elements, in document order. (The names
  \<open>children\<close> and \<open>attributes\<close> are kept for the keys of the extractor's output.)\<close>

definition childElements :: "'n element \<Rightarrow> 'n element list" where
  "childElements e = concat (map (\<lambda>c. case c of ElementNode x \<Rightarrow> [x] | _ \<Rightarrow> []) (childNodes e))"

lemma size_childNodes: "c \<in> set (childNodes e) \<Longrightarrow> size_node size c < size e"
  by (cases e) (auto simp: less_Suc_eq_le intro: trans_le_add2 size_list_estimation')

lemma size_childElements: "x \<in> set (childElements e) \<Longrightarrow> size x < size e"
  by (auto simp: childElements_def split: node.splits dest!: size_childNodes)

lemma size_node_member:
  "c \<in> set cs \<Longrightarrow> size_node size c \<le> Suc (k + size_list (size_node size) cs)"
  by (simp add: le_SucI size_list_estimation' trans_le_add2)

lemma size_ElementNode_member_le:
  "ElementNode x \<in> set cs \<Longrightarrow> size x \<le> k + size_list (size_node size) cs"
  using size_list_estimation'[of "ElementNode x" cs "Suc (size x)" "size_node size"] by simp

lemma size_ElementNode_member [termination_simp]:
  "ElementNode x \<in> set cs \<Longrightarrow> size x < Suc (k + size_list (size_node size) cs)"
  using size_list_estimation'[of "ElementNode x" cs "Suc (size x)" "size_node size"] by simp

lemma size_childElements_Element [termination_simp]:
  "x \<in> set (childElements (Element t a s r cs)) \<Longrightarrow>
     size x < Suc (k + size_list (size_node size) cs)"
  by (auto simp: childElements_def size_ElementNode_member split: node.splits)

section \<open>The DOM snapshot extractor\<close>

text \<open>
  The object \<open>extractElement\<close> builds has seven keys, where \<open>None\<close> stands for \<open>null\<close>; the
  fallback object returned when the document has no body has four. Reading one of the three
  missing keys of the fallback gives no text, no box and a false flag. The serialisation of
  the result by \<open>JSON.stringify\<close> is not modelled.
\<close>

datatype 'n element_node =
  Node (tag_name: string) (attributes: "string \<rightharpoonup> string") (text_content: "string option")
    (children: "'n element_node list") (is_visible: bool) (is_interactive: bool)
    (bounding_box: "'n rect option")
| MinimalNode (tag_name: string) (attributes: "string \<rightharpoonup> string")
    (children: "'n element_node list") (is_visible: bool)
where
  "text_content (MinimalNode t a cs v) = None"
| "is_interactive (MinimalNode t a cs v) = False"
| "bounding_box (MinimalNode t a cs v) = None"

definition isVisible :: "('n::{zero,ord}) element option \<Rightarrow> bool" where
  "isVisible element =
     (case element of
        None \<Rightarrow> False
      | Some e \<Rightarrow>
          (let st = computedStyle e in
           if display st = ''none'' \<or> visibility st = ''hidden'' \<or> opacity st = ''0''
           then False
           else (let r = boundingClientRect e in 0 < width r \<and> 0 < height r)))"

text \<open>
  The attribute loop \<open>node.attributes[attr.name] = attr.value\<close>. Assigning a string to
  the key \<open>__proto__\<close> of a plain object goes to the inherited setter, which ignores a
  value that is not an object: no key is created.
\<close>

definition extractAttributes :: "(string \<times> string) list \<Rightarrow> (string \<rightharpoonup> string)" where
  "extractAttributes as =
     foldl (\<lambda>m (name, val). if name = ''__proto__'' then m else m(name \<mapsto> val)) Map.empty as"

text \<open>The direct text of an element: its text nodes, each trimmed, the empty ones dropped,
  joined by one space; \<open>null\<close> when nothing is left.\<close>

definition directText :: "'n element \<Rightarrow> string option" where
  "directText element =
     (let textContent =
        join '' ''
          (filter (\<lambda>t. length t > 0)
            (map trim
              (concat (map (\<lambda>n. case n of TextNode s \<Rightarrow> [s] | _ \<Rightarrow> []) (childNodes element)))))
      in if textContent \<noteq> [] then Some textContent else None)"

function extractElement ::
  "('n::{zero,ord}) element \<Rightarrow> nat \<Rightarrow> nat \<Rightarrow> 'n element_node option" where
  "extractElement element depth maxDepth =
     (if depth > maxDepth then None
      else
        (let tagName' = toLowerCase (tagName element) in
         if tagName' \<in> set [''script'', ''style'', ''noscript'', ''meta'', ''link''] then None
         else
           (let visible = isVisible (Some element) in
            Some (Node tagName'
              (extractAttributes (attrs element))
              (directText element)
              (foldl
                (\<lambda>acc child.
                   case extractElement child (depth + 1) maxDepth of
                     None \<Rightarrow> acc
                   | Some childNode \<Rightarrow> acc @ [childNode])
                [] (childElements element))
              visible
              False
              (if visible then
                 (let r = boundingClientRect element in
                  Some (Rect (x_coord r) (y_coord r) (width r) (height r)))
               else None)))))"
  by pat_completeness auto
termination
  by (relation "measure (\<lambda>(element, depth, maxDepth). size element)")
     (auto simp: size_childElements)

text \<open>The script's entry point, applied to \<open>document.body\<close> (absent or an element); the
  defaults \<open>depth = 0\<close> and \<open>maxDepth = 10\<close> of \<open>extractElement\<close> apply.\<close>

definition extractDom :: "('n::{zero,ord}) element option \<Rightarrow> 'n element_node option" where
  "extractDom body =
     (case body of
        None \<Rightarrow> Some (MinimalNode ''body'' Map.empty [] False)
      | Some b \<Rightarrow> extractElement b 0 10)"

section \<open>The Markdown renderer\<close>

subsection \<open>What the renderer reads from the document\<close>

text \<open>\<open>element.textContent\<close>: the data of all descendant text nodes, in tree order.\<close>

fun textContent :: "'n element \<Rightarrow> string" where
  "textContent (Element t a s r cs) =
     concat (map (\<lambda>c. case c of
                    TextNode d \<Rightarrow> d
                  | ElementNode x \<Rightarrow> textContent x
                  | CommentNode d \<Rightarrow> [])
        cs)"

text \<open>
  \<open>querySelectorAll\<close> and \<open>querySelector\<close> are only called with lists of type selectors
  (\<open>'tr'\<close>, \<open>'th'\<close>, \<open>'th, td'\<close>, \<open>'code'\<close>): they select, among the descendants of the
  element in document order, those whose lower-case tag name is in the list.
\<close>

fun descendants :: "'n element \<Rightarrow> 'n element list" where
  "descendants (Element t a s r cs) =
     concat (map (\<lambda>c. case c of ElementNode x \<Rightarrow> x # descendants x | _ \<Rightarrow> []) cs)"

definition querySelectorAll :: "string list \<Rightarrow> 'n element \<Rightarrow> 'n element list" where
  "querySelectorAll names e = filter (\<lambda>x. toLowerCase (tagName x) \<in> set names) (descendants e)"

definition querySelector :: "string list \<Rightarrow> 'n element \<Rightarrow> 'n element option" where
  "querySelector names e = (case querySelectorAll names e of [] \<Rightarrow> None | x # xs \<Rightarrow> Some x)"

text \<open>\<open>element.getAttribute(name) || ''\<close>.\<close>

definition getAttributeOrEmpty :: "'n element \<Rightarrow> string \<Rightarrow> string" where
  "getAttributeOrEmpty e name = (case map_of (attrs e) name of Some v \<Rightarrow> v | None \<Rightarrow> [])"

subsection \<open>String helpers\<close>

text \<open>\<open>String.prototype.split\<close> with a one-character separator.\<close>

fun splitString :: "char \<Rightarrow> string \<Rightarrow> string list" where
  "splitString sep [] = [[]]"
| "splitString sep (c # cs) =
     (if c = sep then [] # splitString sep cs
      else (case splitString sep cs of
              w # ws \<Rightarrow> (c # w) # ws
            | [] \<Rightarrow> [[c]]))"

text \<open>The decimal digits of a list index, as \<open>(index + 1) + '. '\<close> converts it.\<close>

fun numberToString :: "nat \<Rightarrow> string" where
  "numberToString n =
     (if n < 10 then [''0123456789'' ! n]
      else numberToString (n div 10) @ [''0123456789'' ! (n mod 10)])"

text \<open>\<open>content.replace(/\n{3,}/g, '\n\n')\<close>: every maximal run of three or more line feeds
  becomes two.\<close>

function collapseNewlines :: "string \<Rightarrow> string" where
  "collapseNewlines [] = []"
| "collapseNewlines (c # cs) =
     (if c = CHR 0x0A then
        (let run = takeWhile (\<lambda>x. x = CHR 0x0A) (c # cs);
             rest = dropWhile (\<lambda>x. x = CHR 0x0A) (c # cs)
         in (if length run \<ge> 3 then ''\<newline>\<newline>'' else run) @ collapseNewlines rest)
      else c # collapseNewlines cs)"
  by pat_completeness auto
termination
  by (relation "measure length") (auto simp: less_Suc_eq_le length_dropWhile_le)

subsection \<open>The renderer\<close>

function (sequential) getTextContent :: "'n element node \<Rightarrow> string" where
  "getTextContent (TextNode d) = trim d"
| "getTextContent (CommentNode d) = trim []"
| "getTextContent (ElementNode (Element t a s r cs)) =
     trim
       (foldl
          (\<lambda>text child.
             case child of
               TextNode d \<Rightarrow> text @ d
             | ElementNode c \<Rightarrow>
                 (let childTag = toLowerCase (tagName c) in
                  if childTag \<notin> set [''script'', ''style'', ''noscript'']
                  then text @ getTextContent child
                  else text)
             | CommentNode d \<Rightarrow> text)
          [] cs)"
  by pat_completeness auto
termination
  by (relation "measure (size_node size)")
     (auto simp: less_Suc_eq_le size_ElementNode_member_le)

definition convertTable :: "'n element \<Rightarrow> string" where
  "convertTable table =
     (let rows = querySelectorAll [''tr''] table in
      if length rows = 0 then []
      else
        (let hasHeader = (querySelector [''th''] table \<noteq> None) in
         foldl
           (\<lambda>markdown (rowIndex, row).
              (let cells = querySelectorAll [''th'', ''td''] row;
                   cellTexts = map (\<lambda>cell. getTextContent (ElementNode cell)) cells;
                   markdown' = markdown @ ''| '' @ join '' | '' cellTexts @ '' |\<newline>''
               in if rowIndex = 0 \<and> hasHeader
                  then markdown' @ ''| '' @ join '' | '' (map (\<lambda>cell. ''---'') cells) @ '' |\<newline>''
                  else markdown'))
           [] (enumerate 0 rows)))"

function (sequential) htmlToMarkdown ::
  "'n element option \<Rightarrow> 'n element node option \<Rightarrow> string" where
  "htmlToMarkdown parentElement None = []"
| "htmlToMarkdown parentElement (Some (TextNode d)) =
     (let text' = trim d in if text' \<noteq> [] then text' @ '' '' else [])"
| "htmlToMarkdown parentElement (Some (CommentNode d)) = []"
| "htmlToMarkdown parentElement (Some (ElementNode (Element t a s r cs))) =
     (let element = Element t a s r cs; tagName' = toLowerCase t in
      if tagName' \<in> set [''script'', ''style'', ''noscript'', ''meta'', ''link'', ''iframe'']
      then []
      else if tagName' = ''h1'' then
        ''\<newline># '' @ getTextContent (ElementNode element) @ ''\<newline>\<newline>''
      else if tagName' = ''h2'' then
        ''\<newline>## '' @ getTextContent (ElementNode element) @ ''\<newline>\<newline>''
      else if tagName' = ''h3'' then
        ''\<newline>### '' @ getTextContent (ElementNode element) @ ''\<newline>\<newline>''
      else if tagName' = ''h4'' then
        ''\<newline>#### '' @ getTextContent (ElementNode element) @ ''\<newline>\<newline>''
      else if tagName' = ''h5'' then
        ''\<newline>##### '' @ getTextContent (ElementNode element) @ ''\<newline>\<newline>''
      else if tagName' = ''h6'' then
        ''\<newline>###### '' @ getTextContent (ElementNode element) @ ''\<newline>\<newline>''
      else if tagName' = ''p'' then
        getTextContent (ElementNode element) @ ''\<newline>\<newline>''
      else if tagName' = ''br'' then ''\<newline>''
      else if tagName' = ''hr'' then ''\<newline>---\<newline>\<newline>''
      else if tagName' = ''strong'' \<or> tagName' = ''b'' then
        ''**'' @ getTextContent (ElementNode element) @ ''**''
      else if tagName' = ''em'' \<or> tagName' = ''i'' then
        ''*'' @ getTextContent (ElementNode element) @ ''*''
      else if tagName' = ''code'' then
        (if (case parentElement of
               None \<Rightarrow> False
             | Some parent \<Rightarrow> toLowerCase (tagName parent) = ''pre'')
         then []
         else ''`'' @ getTextContent (ElementNode element) @ ''`'')
      else if tagName' = ''pre'' then
        (let codeElement = querySelector [''code''] element;
             code = (case codeElement of
                       Some ce \<Rightarrow> textContent ce
                     | None \<Rightarrow> textContent element)
         in ''\<newline>```\<newline>'' @ code @ ''\<newline>```\<newline>\<newline>'')
      else if tagName' = ''a'' then
        (let href = getAttributeOrEmpty element ''href'';
             linkText = getTextContent (ElementNode element)
         in ''['' @ linkText @ '']('' @ href @ '')'')
      else if tagName' = ''img'' then
        (let src = getAttributeOrEmpty element ''src'';
             alt = getAttributeOrEmpty element ''alt''
         in ''!['' @ alt @ '']('' @ src @ '')'')
      else if tagName' = ''ul'' \<or> tagName' = ''ol'' then
        (let listItems = childElements element;
             isOrdered = (tagName' = ''ol'')
         in foldl
              (\<lambda>markdown (index, li).
                 if toLowerCase (tagName li) = ''li'' then
                   (let prefix = (if isOrdered then numberToString (index + 1) @ ''. '' else ''- '')
                    in markdown @ prefix @ getTextContent (ElementNode li) @ ''\<newline>'')
                 else markdown)
              [] (enumerate 0 listItems)
            @ ''\<newline>'')
      else if tagName' = ''li'' then []
      else if tagName' = ''blockquote'' then
        (let lines = splitString (CHR 0x0A) (getTextContent (ElementNode element))
         in join ''\<newline>'' (map (\<lambda>line. ''> '' @ line) lines) @ ''\<newline>\<newline>'')
      else if tagName' = ''table'' then convertTable element @ ''\<newline>\<newline>''
      else if tagName' \<in> set [''div'', ''article'', ''section'', ''main'', ''body''] then
        foldl (\<lambda>markdown child. markdown @ htmlToMarkdown (Some element) (Some child)) [] cs
      else
        foldl (\<lambda>markdown child. markdown @ htmlToMarkdown (Some element) (Some child)) [] cs)"
  by pat_completeness auto
termination
  by (relation "measure (\<lambda>(parentElement, element).
                  case element of None \<Rightarrow> 0 | Some n \<Rightarrow> size_node size n)")
     (auto simp: less_Suc_eq_le size_node_member)

text \<open>
  The end of the script: the Markdown of the content root (absent when the document has
  none), cleaned up. How the root is chosen among \<open>article\<close>, \<open>main\<close>, \<open>[role="main"]\<close> and
  the body is not modelled; the root comes with its parent element, which the rule for
  \<open>code\<close> inspects.
\<close>

definition renderContent :: "'n element option \<Rightarrow> 'n element option \<Rightarrow> string" where
  "renderContent parentElement contentElement =
     (let content = htmlToMarkdown parentElement (map_option ElementNode contentElement)
      in trim (collapseNewlines content))"

section \<open>Notions the extractor's properties are stated with\<close>

text \<open>All nodes of an output tree, the root first.\<close>

fun nodes :: "'n element_node \<Rightarrow> 'n element_node list" where
  "nodes (Node t a x cs v i b) = Node t a x cs v i b # concat (map nodes cs)"
| "nodes (MinimalNode t a cs v) = MinimalNode t a cs v # concat (map nodes cs)"


fun elementDepth :: "'n element \<Rightarrow> nat" where
  "elementDepth (Element t a s r cs) =
     foldr max (map (\<lambda>c. Suc (elementDepth c)) (childElements (Element t a s r cs))) 0"

text \<open>The tag test of \<open>extractElement\<close>, as a predicate on elements.\<close>

definition isExcluded :: "'n element \<Rightarrow> bool" where
  "isExcluded e = (toLowerCase (tagName e) \<in> set [''script'', ''style'', ''noscript'', ''meta'', ''link''])"

text \<open>\<open>cutBelow k e\<close> removes every element that lies more than \<open>k\<close> levels below \<open>e\<close>,
  with its subtree; text and comments of the elements that stay are kept.\<close>

fun cutBelow :: "nat \<Rightarrow> 'n element \<Rightarrow> 'n element" where
  "cutBelow k (Element t a s r cs) =
     Element t a s r
       (concat (map (\<lambda>c. case c of
                      ElementNode x \<Rightarrow> (case k of 0 \<Rightarrow> [] | Suc j \<Rightarrow> [ElementNode (cutBelow j x)])
                    | _ \<Rightarrow> [c])
          cs))"

text \<open>\<open>withoutExcluded e\<close> removes every descendant element with an excluded tag, with its
  subtree.\<close>

fun withoutExcluded :: "'n element \<Rightarrow> 'n element" where
  "withoutExcluded (Element t a s r cs) =
     Element t a s r
       (concat (map (\<lambda>c. case c of
                      ElementNode x \<Rightarrow> if isExcluded x then [] else [ElementNode (withoutExcluded x)]
                    | _ \<Rightarrow> [c])
          cs))"

text \<open>Example documents.\<close>

definition visibleStyle :: style where
  "visibleStyle = \<lparr>display = ''block'', visibility = ''visible'', opacity = ''1''\<rparr>"


definition smallPage :: "int element" where
  "smallPage =
     Element ''BODY'' [(''class'', ''home'')] visibleStyle (Rect 0 0 800 600)
       [TextNode '' hi '',
        ElementNode (Element ''DIV'' [] visibleStyle (Rect 0 0 800 0)
          [ElementNode (Element ''SPAN'' [] visibleStyle (Rect 5 5 30 10) [TextNode ''a''])]),
        ElementNode (Element ''SCRIPT'' [] visibleStyle (Rect 0 0 0 0) [TextNode ''var x;''])]"

definition smallPageOut :: "int element_node" where
  "smallPageOut =
     Node ''body'' [''class'' \<mapsto> ''home''] (Some ''hi'')
       [Node ''div'' Map.empty None
          [Node ''span'' Map.empty (Some ''a'') [] True False (Some (Rect 5 5 30 10))]
          False False None]
       True False (Some (Rect 0 0 800 600))"

section \<open>Notions the renderer's properties are stated with\<close>



text \<open>The line \<open>convertTable\<close> writes for a row, the separator line it writes after a
  first row, and what it means for a table to contain a header cell.\<close>

definition rowLine :: "'n element \<Rightarrow> string" where
  "rowLine row =
     ''| '' @ join '' | '' (map (\<lambda>cell. getTextContent (ElementNode cell))
                              (querySelectorAll [''th'', ''td''] row)) @ '' |\<newline>''"

definition separatorLine :: "'n element \<Rightarrow> string" where
  "separatorLine row =
     ''| '' @ join '' | '' (map (\<lambda>cell. ''---'') (querySelectorAll [''th'', ''td''] row)) @ '' |\<newline>''"

definition hasHeaderCell :: "'n element \<Rightarrow> bool" where
  "hasHeaderCell table = (\<exists>x \<in> set (descendants table). toLowerCase (tagName x) = ''th'')"

text \<open>Example documents for the renderer: elements without attributes.\<close>

definition plainElement :: "string \<Rightarrow> int element node list \<Rightarrow> int element" where
  "plainElement t cs = Element t [] visibleStyle (Rect 0 0 0 0) cs"

definition fragmentBody :: "int element" where
  "fragmentBody =
     plainElement ''BODY''
       [ElementNode (plainElement ''H1'' [TextNode ''Title'']),
        ElementNode (plainElement ''P''
          [TextNode ''Hello '', ElementNode (plainElement ''B'' [TextNode ''world''])])]"


definition emptyTable :: "int element" where
  "emptyTable = plainElement ''TABLE'' [ElementNode (plainElement ''TBODY'' [])]"

definition dataRow :: "int element" where
  "dataRow =
     plainElement ''TR''
       [ElementNode (plainElement ''TD'' [TextNode ''a'']),
        ElementNode (plainElement ''TD'' [TextNode ''b''])]"

definition headerRow :: "int element" where
  "headerRow =
     plainElement ''TR''
       [ElementNode (plainElement ''TH'' [TextNode ''c'']),
        ElementNode (plainElement ''TD'' [TextNode ''d''])]"

definition lateHeaderTable :: "int element" where
  "lateHeaderTable = plainElement ''TABLE'' [ElementNode dataRow, ElementNode headerRow]"

definition mixedList :: "int element" where
  "mixedList =
     plainElement ''OL''
       [ElementNode (plainElement ''LI'' [TextNode ''a'']),
        ElementNode (plainElement ''DIV'' [TextNode ''x'']),
        ElementNode (plainElement ''LI'' [TextNode ''b''])]"

section \<open>Lemmas about the extractor\<close>

declare extractElement.simps [simp del]


declare elementDepth.simps [simp del]

lemma foldl_push_map_filter:
  "foldl (\<lambda>acc child. case f child of None \<Rightarrow> acc | Some y \<Rightarrow> acc @ [y]) acc xs
     = acc @ List.map_filter f xs"
  by (induction xs arbitrary: acc) (auto split: option.splits)

lemma extractElement_Some:
  "extractElement e d m = Some out \<longleftrightarrow>
     d \<le> m \<and> \<not> isExcluded e \<and>
     out = Node (toLowerCase (tagName e)) (extractAttributes (attrs e)) (directText e)
       (List.map_filter (\<lambda>c. extractElement c (Suc d) m) (childElements e))
       (isVisible (Some e)) False
       (if isVisible (Some e) then Some (boundingClientRect e) else None)"
  by (subst extractElement.simps)
     (auto simp: Let_def isExcluded_def foldl_push_map_filter simp del: set_simps)

lemma extractElement_None:
  "extractElement e d m = None \<longleftrightarrow> m < d \<or> isExcluded e"
  by (subst extractElement.simps) (auto simp: Let_def isExcluded_def simp del: set_simps)

lemma set_map_filter: "set (List.map_filter f xs) = {y. \<exists>x\<in>set xs. f x = Some y}"
  by (induction xs) (auto split: option.splits)

lemma extractElement_induct [case_names step]:
  fixes e :: "('n::{zero,ord}) element"
  assumes "\<And>e d m. (\<And>x. d \<le> m \<Longrightarrow> \<not> isExcluded e \<Longrightarrow> x \<in> set (childElements e) \<Longrightarrow> P x (Suc d) m)
             \<Longrightarrow> P e d m"
  shows "P e d m"
proof (induction e d m rule: extractElement.induct)
  case (1 element depth maxDepth)
  show ?case
  proof (rule assms)
    fix x assume "depth \<le> maxDepth" "\<not> isExcluded element" "x \<in> set (childElements element)"
    then show "P x (Suc depth) maxDepth"
      using "1.IH"[OF _ refl _ refl, of x] by (simp add: isExcluded_def del: set_simps)
  qed
qed

lemma nodes_extractElement:
  "extractElement e d m = Some out \<Longrightarrow> n \<in> set (nodes out) \<Longrightarrow>
     \<exists>e' d'. extractElement e' d' m = Some n"
proof (induction e d m arbitrary: out rule: extractElement_induct)
  case (step e d m)
  from step.prems(1) have out: "children out =
       List.map_filter (\<lambda>c. extractElement c (Suc d) m) (childElements e)"
    and le: "d \<le> m" and ne: "\<not> isExcluded e"
    by (simp_all add: extractElement_Some)
  from step.prems(2) consider "n = out"
    | c where "c \<in> set (children out)" "n \<in> set (nodes c)"
    by (cases out) auto
  then show ?case
  proof cases
    case 1
    with step.prems(1) show ?thesis by blast
  next
    case 2
    from 2(1) obtain x where x: "x \<in> set (childElements e)"
      "extractElement x (Suc d) m = Some c"
      by (auto simp: out set_map_filter)
    from step.IH[OF le ne x 2(2)] show ?thesis .
  qed
qed




lemma textNodes_cutBelow:
  "concat (map (\<lambda>n. case n of TextNode s \<Rightarrow> [s] | _ \<Rightarrow> []) (childNodes (cutBelow k e)))
     = concat (map (\<lambda>n. case n of TextNode s \<Rightarrow> [s] | _ \<Rightarrow> []) (childNodes e))"
proof -
  have "concat (map (\<lambda>n. case n of TextNode s \<Rightarrow> [s] | _ \<Rightarrow> [])
          (concat (map (\<lambda>c. case c of
                      ElementNode x \<Rightarrow> (case k of 0 \<Rightarrow> [] | Suc j \<Rightarrow> [ElementNode (cutBelow j x)])
                    | _ \<Rightarrow> [c]) cs)))
        = concat (map (\<lambda>n. case n of TextNode s \<Rightarrow> [s] | _ \<Rightarrow> []) cs)"
    for cs :: "'a element node list"
    by (induction cs) (auto split: node.splits nat.splits)
  then show ?thesis
    by (cases e) simp
qed

lemma cutBelow_fields [simp]:
  "tagName (cutBelow k e) = tagName e"
  "attrs (cutBelow k e) = attrs e"
  "computedStyle (cutBelow k e) = computedStyle e"
  "boundingClientRect (cutBelow k e) = boundingClientRect e"
  by (cases e; simp)+

lemma cutBelow_local [simp]:
  "isExcluded (cutBelow k e) = isExcluded e"
  "directText (cutBelow k e) = directText e"
  "isVisible (Some (cutBelow k e)) = isVisible (Some e)"
  by (simp_all add: isExcluded_def directText_def isVisible_def textNodes_cutBelow)

lemma map_filter_cong:
  "xs = ys \<Longrightarrow> (\<And>x. x \<in> set ys \<Longrightarrow> f x = g x) \<Longrightarrow> List.map_filter f xs = List.map_filter g ys"
  by (simp add: List.map_filter_def cong: map_cong filter_cong)

lemma map_filter_map: "List.map_filter f (map g xs) = List.map_filter (f \<circ> g) xs"
  by (induction xs) (simp_all split: option.splits)



lemma childElements_withoutExcluded:
  "childElements (withoutExcluded e)
     = map withoutExcluded (filter (\<lambda>x. \<not> isExcluded x) (childElements e))"
proof -
  have "concat (map (\<lambda>c. case c of ElementNode x \<Rightarrow> [x] | _ \<Rightarrow> [])
          (concat (map (\<lambda>c. case c of
                      ElementNode x \<Rightarrow> if isExcluded x then [] else [ElementNode (withoutExcluded x)]
                    | _ \<Rightarrow> [c]) cs)))
        = map withoutExcluded (filter (\<lambda>x. \<not> isExcluded x)
             (concat (map (\<lambda>c. case c of ElementNode x \<Rightarrow> [x] | _ \<Rightarrow> []) cs)))" for cs
    by (induction cs) (auto split: node.splits)
  then show ?thesis
    by (cases e) (simp add: childElements_def)
qed

lemma textNodes_withoutExcluded:
  "concat (map (\<lambda>n. case n of TextNode s \<Rightarrow> [s] | _ \<Rightarrow> []) (childNodes (withoutExcluded e)))
     = concat (map (\<lambda>n. case n of TextNode s \<Rightarrow> [s] | _ \<Rightarrow> []) (childNodes e))"
proof -
  have "concat (map (\<lambda>n. case n of TextNode s \<Rightarrow> [s] | _ \<Rightarrow> [])
          (concat (map (\<lambda>c. case c of
                      ElementNode x \<Rightarrow> if isExcluded x then [] else [ElementNode (withoutExcluded x)]
                    | _ \<Rightarrow> [c]) cs)))
        = concat (map (\<lambda>n. case n of TextNode s \<Rightarrow> [s] | _ \<Rightarrow> []) cs)" for cs
    by (induction cs) (auto split: node.splits)
  then show ?thesis
    by (cases e) simp
qed

lemma withoutExcluded_fields [simp]:
  "tagName (withoutExcluded e) = tagName e"
  "attrs (withoutExcluded e) = attrs e"
  "computedStyle (withoutExcluded e) = computedStyle e"
  "boundingClientRect (withoutExcluded e) = boundingClientRect e"
  by (cases e; simp)+

lemma withoutExcluded_local [simp]:
  "isExcluded (withoutExcluded e) = isExcluded e"
  "directText (withoutExcluded e) = directText e"
  "isVisible (Some (withoutExcluded e)) = isVisible (Some e)"
  by (simp_all add: isExcluded_def directText_def isVisible_def textNodes_withoutExcluded)

declare cutBelow.simps [simp del] withoutExcluded.simps [simp del]

lemma map_filter_filter:
  "(\<And>x. x \<in> set xs \<Longrightarrow> \<not> p x \<Longrightarrow> f x = None) \<Longrightarrow>
     List.map_filter f (filter p xs) = List.map_filter f xs"
  by (induction xs) (auto split: option.splits)

lemma extractElement_withoutExcluded:
  "extractElement (withoutExcluded e) d m = extractElement e d m"
proof (induction e d m rule: extractElement_induct)
  case (step e d m)
  show ?case
  proof (cases "extractElement e d m")
    case None
    then have "extractElement (withoutExcluded e) d m = None"
      by (simp add: extractElement_None)
    with None show ?thesis by simp
  next
    case (Some out)
    then have le: "d \<le> m" and ne: "\<not> isExcluded e"
      by (simp_all add: extractElement_Some)
    have "List.map_filter (\<lambda>c. extractElement c (Suc d) m) (childElements (withoutExcluded e))
      = List.map_filter (\<lambda>c. extractElement c (Suc d) m) (filter (\<lambda>x. \<not> isExcluded x) (childElements e))"
      unfolding childElements_withoutExcluded map_filter_map
      by (rule map_filter_cong) (use step.IH[OF le ne] in auto)
    also have "\<dots> = List.map_filter (\<lambda>c. extractElement c (Suc d) m) (childElements e)"
      by (rule map_filter_filter) (simp add: extractElement_None)
    finally have kids: "List.map_filter (\<lambda>c. extractElement c (Suc d) m) (childElements (withoutExcluded e))
      = List.map_filter (\<lambda>c. extractElement c (Suc d) m) (childElements e)" .
    show ?thesis
      unfolding Some using Some by (simp add: extractElement_Some kids)
  qed
qed





lemma extractElement_unfold:
  "extractElement e d m =
     (if m < d \<or> isExcluded e then None
      else Some (Node (toLowerCase (tagName e)) (extractAttributes (attrs e)) (directText e)
       (List.map_filter (\<lambda>c. extractElement c (Suc d) m) (childElements e))
       (isVisible (Some e)) False
       (if isVisible (Some e) then Some (boundingClientRect e) else None)))"
  by (cases "extractElement e d m") (auto simp: extractElement_None extractElement_Some)



lemmas eval_simps = extractDom_def extractElement_unfold isExcluded_def toLowerCase_def lowerChar_def
      upperCaseLetters_def lowerCaseLetters_def
      childElements_def isVisible_def directText_def extractAttributes_def trim_def isWhiteSpace_def
      elementDepth.simps cutBelow.simps withoutExcluded.simps

lemma smallPage_extract: "extractElement smallPage 0 10 = Some smallPageOut"
  by (simp add: smallPage_def smallPageOut_def visibleStyle_def eval_simps)

lemma extractDom_nodes:
  assumes "extractDom body = Some out" "n \<in> set (nodes out)"
  shows "n = MinimalNode ''body'' Map.empty [] False \<or> (\<exists>e' d'. extractElement e' d' 10 = Some n)"
proof (cases body)
  case None
  with assms show ?thesis by (auto simp: extractDom_def)
next
  case (Some b)
  with assms nodes_extractElement[of b 0 10 out n] show ?thesis
    by (simp add: extractDom_def)
qed
section \<open>Properties of the extractor\<close>




text \<open>
  C2. Whatever the depth and the maximum, no node of the output of \<open>extractElement\<close> has a
  tag of the exclusion list, and the output is the same as on the document from which every
  excluded-tag element has been removed with its subtree: nothing below such an element
  contributes to the output.
\<close>

theorem extractElement_excluded_tags_absent:
  assumes "extractElement e d m = Some out"
  shows "(\<forall>n\<in>set (nodes out).
            tag_name n \<notin> set [''script'', ''style'', ''noscript'', ''meta'', ''link''])
       \<and> extractElement (withoutExcluded e) d m = Some out"
proof
  show "\<forall>n\<in>set (nodes out).
          tag_name n \<notin> set [''script'', ''style'', ''noscript'', ''meta'', ''link'']"
  proof
    fix n assume "n \<in> set (nodes out)"
    with assms obtain e' d' where "extractElement e' d' m = Some n"
      using nodes_extractElement by blast
    then have "tag_name n = toLowerCase (tagName e')" "\<not> isExcluded e'"
      by (simp_all add: extractElement_Some)
    then show "tag_name n \<notin> set [''script'', ''style'', ''noscript'', ''meta'', ''link'']"
      by (simp add: isExcluded_def del: set_simps)
  qed
  show "extractElement (withoutExcluded e) d m = Some out"
    using assms by (simp add: extractElement_withoutExcluded)
qed

theorem extractElement_excluded_tags_absent_witness:
  "extractElement smallPage 0 10 = Some smallPageOut
     \<and> list_all (\<lambda>n. tag_name n \<notin> set [''script'', ''style'', ''noscript'', ''meta'', ''link''])
          (nodes smallPageOut)
     \<and> extractElement (withoutExcluded smallPage) 0 10 = Some smallPageOut"
  using extractElement_excluded_tags_absent[OF smallPage_extract] smallPage_extract
  unfolding list_all_iff by blast

text \<open>
  C3. In every node of the output, of \<open>extractElement\<close> at any depth as of the whole script:
  a node with \<open>is_visible\<close> true carries a \<open>bounding_box\<close> whose width and height are both
  greater than zero, and a node with \<open>is_visible\<close> false carries none. The coordinates are
  of any type with a zero and an order relation.
\<close>

theorem visible_iff_box:
  fixes out :: "('n::{zero,ord}) element_node"
  assumes "extractElement e d m = Some out \<or> extractDom body = Some out"
  shows "\<forall>n\<in>set (nodes out).
           (is_visible n \<longrightarrow> (\<exists>b. bounding_box n = Some b \<and> 0 < width b \<and> 0 < height b))
         \<and> (\<not> is_visible n \<longrightarrow> bounding_box n = None)"
proof
  fix n assume n: "n \<in> set (nodes out)"
  from assms n consider "n = MinimalNode ''body'' Map.empty [] False"
    | e' d' m' where "extractElement e' d' m' = Some n"
    using nodes_extractElement[of e d m out n] extractDom_nodes[of body out n] by blast
  then show "(is_visible n \<longrightarrow> (\<exists>b. bounding_box n = Some b \<and> 0 < width b \<and> 0 < height b))
         \<and> (\<not> is_visible n \<longrightarrow> bounding_box n = None)"
  proof cases
    case 1
    then show ?thesis by simp
  next
    case 2
    then show ?thesis
      by (auto simp: extractElement_Some isVisible_def Let_def split: if_splits)
  qed
qed

theorem visible_iff_box_witness:
  "extractDom (Some smallPage) = Some smallPageOut
     \<and> list_all (\<lambda>n. if is_visible n
                      then (case bounding_box n of
                              Some b \<Rightarrow> 0 < width b \<and> 0 < height b
                            | None \<Rightarrow> False)
                      else bounding_box n = None)
          (nodes smallPageOut)
     \<and> map is_visible (nodes smallPageOut) = [True, False, True]"
proof -
  have x: "extractDom (Some smallPage) = Some smallPageOut"
    using smallPage_extract by (simp add: extractDom_def)
  have "map is_visible (nodes smallPageOut) = [True, False, True]"
    by (simp add: smallPageOut_def)
  with x visible_iff_box[of undefined 0 0 smallPageOut "Some smallPage", OF disjI2, OF x]
  show ?thesis
    by (auto simp: list_all_iff split: option.splits)
qed

text \<open>
  C8. When the document has no body, the extractor does not fail: it returns exactly the
  four-key fallback node with tag \<open>body\<close>, no attributes, no children and \<open>is_visible\<close>
  false.
\<close>

theorem extractDom_no_body:
  "extractDom None = Some (MinimalNode ''body'' Map.empty [] False)"
  by (simp add: extractDom_def)

section \<open>Lemmas about the renderer\<close>







lemma foldl_enumerate_cond:
  "foldl (\<lambda>md (i, x). if P x then md @ f i x else md) acc (enumerate n xs)
     = acc @ concat (map (\<lambda>i. if P (xs ! i) then f (n + i) (xs ! i) else []) [0..<length xs])"
proof (induction xs arbitrary: acc n)
  case Nil
  show ?case by simp
next
  case (Cons x xs)
  show ?case
    by (simp add: Cons.IH map_upt_Suc del: upt_Suc cong: if_cong)
qed

lemma querySelector_None:
  "querySelector names e \<noteq> None
     \<longleftrightarrow> (\<exists>x \<in> set (descendants e). toLowerCase (tagName x) \<in> set names)"
proof -
  have "querySelector names e \<noteq> None \<longleftrightarrow> querySelectorAll names e \<noteq> []"
    by (simp add: querySelector_def split: list.splits)
  also have "\<dots> \<longleftrightarrow> (\<exists>x \<in> set (descendants e). toLowerCase (tagName x) \<in> set names)"
    by (simp add: querySelectorAll_def filter_empty_conv)
  finally show ?thesis .
qed

lemma foldl_rows_rest:
  "0 < n \<Longrightarrow>
   foldl
     (\<lambda>markdown (rowIndex, row).
        (let cells = querySelectorAll [''th'', ''td''] row;
             cellTexts = map (\<lambda>cell. getTextContent (ElementNode cell)) cells;
             markdown' = markdown @ ''| '' @ join '' | '' cellTexts @ '' |\<newline>''
         in if rowIndex = 0 \<and> h
            then markdown' @ ''| '' @ join '' | '' (map (\<lambda>cell. ''---'') cells) @ '' |\<newline>''
            else markdown'))
     acc (enumerate n rows)
   = acc @ concat (map rowLine rows)"
  by (induction rows arbitrary: acc n) (simp_all add: rowLine_def Let_def)

lemmas md_eval = plainElement_def visibleStyle_def toLowerCase_def lowerChar_def
  upperCaseLetters_def lowerCaseLetters_def trim_def
  isWhiteSpace_def childElements_def querySelectorAll_def querySelector_def convertTable_def
  renderContent_def getAttributeOrEmpty_def

section \<open>Properties of the renderer\<close>




text \<open>
  C5. For a table with at least one row (a \<open>tr\<close> descendant), \<open>convertTable\<close> writes the
  line of the first row, then one separator line exactly when the table contains a header
  cell (a \<open>th\<close> descendant) anywhere, then the lines of the remaining rows and nothing else:
  one separator, right after the first row, if there is a header cell, and none otherwise.
  The Markdown of the \<open>table\<close> element is this text followed by an empty line.
\<close>

theorem convertTable_separator:
  assumes "querySelectorAll [''tr''] table = row # rest"
  shows "convertTable table
           = concat (rowLine row # (if hasHeaderCell table then [separatorLine row] else [])
                       @ map rowLine rest)
       \<and> (toLowerCase (tagName table) = ''table'' \<longrightarrow>
            htmlToMarkdown p (Some (ElementNode table)) = convertTable table @ ''\<newline>\<newline>'')"
proof
  have h: "(querySelector [''th''] table \<noteq> None) = hasHeaderCell table"
    using querySelector_None[of "[''th'']" table] by (simp add: hasHeaderCell_def)
  show "convertTable table
           = concat (rowLine row # (if hasHeaderCell table then [separatorLine row] else [])
                       @ map rowLine rest)"
    unfolding convertTable_def assms Let_def h
    by (simp add: foldl_rows_rest[unfolded Let_def] rowLine_def separatorLine_def)
  show "toLowerCase (tagName table) = ''table'' \<longrightarrow>
          htmlToMarkdown p (Some (ElementNode table)) = convertTable table @ ''\<newline>\<newline>''"
    by (cases table) simp
qed

theorem convertTable_separator_witness:
  "querySelectorAll [''tr''] lateHeaderTable = [dataRow, headerRow]
     \<and> hasHeaderCell lateHeaderTable
     \<and> toLowerCase (tagName lateHeaderTable) = ''table''
     \<and> convertTable lateHeaderTable
         = concat [rowLine dataRow, separatorLine dataRow, rowLine headerRow]
     \<and> htmlToMarkdown None (Some (ElementNode lateHeaderTable))
         = ''| a | b |\<newline>| --- | --- |\<newline>| c | d |\<newline>\<newline>\<newline>''"
proof -
  have rows: "querySelectorAll [''tr''] lateHeaderTable = [dataRow, headerRow]"
    by (simp add: lateHeaderTable_def dataRow_def headerRow_def md_eval)
  have th: "hasHeaderCell lateHeaderTable"
    by (simp add: hasHeaderCell_def lateHeaderTable_def dataRow_def headerRow_def md_eval)
  have t: "toLowerCase (tagName lateHeaderTable) = ''table''"
    by (simp add: lateHeaderTable_def md_eval)
  have "concat [rowLine dataRow, separatorLine dataRow, rowLine headerRow]
         = ''| a | b |\<newline>| --- | --- |\<newline>| c | d |\<newline>''"
    by (simp add: rowLine_def separatorLine_def dataRow_def headerRow_def md_eval)
  with rows th t convertTable_separator[OF rows, of None] show ?thesis by simp
qed

text \<open>
  C6 (as amended). For a \<open>table\<close> element without rows, \<open>convertTable\<close> returns the empty
  string, and what \<open>htmlToMarkdown\<close> contributes for the element is the two line feeds that
  its table rule appends to every table.
\<close>

theorem table_without_rows:
  assumes "toLowerCase (tagName e) = ''table''" and "querySelectorAll [''tr''] e = []"
  shows "convertTable e = [] \<and> htmlToMarkdown p (Some (ElementNode e)) = ''\<newline>\<newline>''"
proof -
  have "convertTable e = []"
    using assms(2) by (simp add: convertTable_def)
  with assms(1) show ?thesis
    by (cases e) simp
qed

theorem table_without_rows_witness:
  "toLowerCase (tagName emptyTable) = ''table''
     \<and> querySelectorAll [''tr''] emptyTable = []
     \<and> convertTable emptyTable = []
     \<and> htmlToMarkdown (Some fragmentBody) (Some (ElementNode emptyTable)) = ''\<newline>\<newline>''"
proof -
  have t: "toLowerCase (tagName emptyTable) = ''table''"
    by (simp add: emptyTable_def md_eval)
  have r: "querySelectorAll [''tr''] emptyTable = []"
    by (simp add: emptyTable_def md_eval)
  from t r table_without_rows[OF t r, of "Some fragmentBody"] show ?thesis by simp
qed

text \<open>
  C6 as stated fails: the contribution of a table without rows is not the empty string.
\<close>

theorem table_without_rows_counterexample:
  "querySelectorAll [''tr''] emptyTable = []
     \<and> htmlToMarkdown None (Some (ElementNode emptyTable)) \<noteq> []"
  by (simp add: emptyTable_def md_eval)

text \<open>
  C7 (as amended). For the fragment \<open><h1>Title</h1><p>Hello <b>world</b></p>\<close> in a body,
  \<open>htmlToMarkdown\<close> produces \<open>"\n# Title\n\nHello world\n\n"\<close>, with the line feed that the
  heading rule puts first, and the content after the final clean-up is
  \<open>"# Title\n\nHello world"\<close>. The bold run is flattened to plain text, without markup; the
  space before it is the one that ends the text node \<open>Hello \<close>.
\<close>

theorem fragment_markdown:
  "htmlToMarkdown None (Some (ElementNode fragmentBody))
     = ''\<newline># Title\<newline>\<newline>Hello world\<newline>\<newline>''
   \<and> renderContent None (Some fragmentBody) = ''# Title\<newline>\<newline>Hello world''"
  by (simp add: fragmentBody_def md_eval)

text \<open>
  C7 as stated fails: neither the output of \<open>htmlToMarkdown\<close> nor the cleaned-up content is
  the string \<open>"# Title\n\nHello world\n\n"\<close>.
\<close>

theorem fragment_markdown_counterexample:
  "htmlToMarkdown None (Some (ElementNode fragmentBody))
     \<noteq> ''# Title\<newline>\<newline>Hello world\<newline>\<newline>''
   \<and> renderContent None (Some fragmentBody)
     \<noteq> ''# Title\<newline>\<newline>Hello world\<newline>\<newline>''"
  by (simp add: fragmentBody_def md_eval)

text \<open>
  C10. For an ordered list, the output is one line per \<open>li\<close> child, in order, followed by an
  empty line; the number in front of a line is the position of its \<open>li\<close>, counted from one,
  among all element children of the \<open>ol\<close>. A child element that is not an \<open>li\<close> writes no
  line and still counts.
\<close>

theorem ordered_list_numbering:
  assumes "toLowerCase (tagName e) = ''ol''"
  shows "htmlToMarkdown p (Some (ElementNode e))
           = concat (map (\<lambda>i. if toLowerCase (tagName (childElements e ! i)) = ''li''
                              then numberToString (i + 1) @ ''. ''
                                     @ getTextContent (ElementNode (childElements e ! i)) @ ''\<newline>''
                              else [])
                       [0..<length (childElements e)])
             @ ''\<newline>''"
  using assms
  by (cases e)
     (simp add: foldl_enumerate_cond Let_def del: numberToString.simps getTextContent.simps
        cong: if_cong)

theorem ordered_list_numbering_witness:
  "toLowerCase (tagName mixedList) = ''ol''
     \<and> htmlToMarkdown None (Some (ElementNode mixedList)) = ''1. a\<newline>3. b\<newline>\<newline>''"
proof -
  have t: "toLowerCase (tagName mixedList) = ''ol''"
    by (simp add: mixedList_def md_eval)
  have "length (childElements mixedList) = 3"
    by (simp add: mixedList_def md_eval)
  with t ordered_list_numbering[OF t, of None] show ?thesis
    by (simp add: mixedList_def md_eval upt_rec)
qed


end
